theory Spec2Isabelle
  imports Complex_Main
begin

section \<open>Exceptions\<close>

text \<open>
  The Python exceptions that the modelled code of \<^verbatim>\<open>generate_map.py\<close> can meet.
  All of them are subclasses of \<^verbatim>\<open>Exception\<close>, apart from
  \<^verbatim>\<open>KeyboardInterrupt\<close>, which derives from \<^verbatim>\<open>BaseException\<close> only.
\<close>

datatype exn =
    ImportError
  | ValueError
  | OverflowError
  | OSError
  | AttributeError
  | IndexError
  | InvalidImageDataError
  | StructError
  | KeyboardInterrupt

fun is_Exception :: "exn \<Rightarrow> bool" where
  "is_Exception KeyboardInterrupt = False"
| "is_Exception _ = True"

section \<open>Timestamp codec\<close>

subsection \<open>Naive date/times\<close>

text \<open>
  A naive \<^verbatim>\<open>datetime\<close> is represented by the number of seconds it lies after the
  start of proleptic Gregorian ordinal 0, which is the scale on which Python computes
  \<^verbatim>\<open>datetime - timedelta\<close> and \<^verbatim>\<open>datetime - datetime\<close>. The functions below
  follow \<^verbatim>\<open>_is_leap\<close>, \<^verbatim>\<open>_days_before_year\<close>, \<^verbatim>\<open>_days_in_month\<close>,
  \<^verbatim>\<open>_days_before_month\<close> and \<^verbatim>\<open>_ymd2ord\<close> of the standard library, and the
  constructor checks the fields as \<^verbatim>\<open>_check_date_fields\<close> and
  \<^verbatim>\<open>_check_time_fields\<close> do, raising \<^verbatim>\<open>ValueError\<close>.
\<close>

type_synonym datetime = int

definition is_leap :: "int \<Rightarrow> bool" where
  "is_leap y = (y mod 4 = 0 \<and> (y mod 100 \<noteq> 0 \<or> y mod 400 = 0))"

definition days_before_year :: "int \<Rightarrow> int" where
  "days_before_year year =
     (let y = year - 1 in y * 365 + y div 4 - y div 100 + y div 400)"

definition DAYS_IN_MONTH :: "int list" where
  "DAYS_IN_MONTH = [31, 28, 31, 30, 31, 30, 31, 31, 30, 31, 30, 31]"

definition days_in_month :: "int \<Rightarrow> int \<Rightarrow> int" where
  "days_in_month year month =
     (if month = 2 \<and> is_leap year then 29 else DAYS_IN_MONTH ! nat (month - 1))"

definition days_before_month :: "int \<Rightarrow> int \<Rightarrow> int" where
  "days_before_month year month =
     sum_list (take (nat (month - 1)) DAYS_IN_MONTH)
       + (if month > 2 \<and> is_leap year then 1 else 0)"

definition ymd2ord :: "int \<Rightarrow> int \<Rightarrow> int \<Rightarrow> int" where
  "ymd2ord year month day = days_before_year year + days_before_month year month + day"

definition valid_fields :: "int \<Rightarrow> int \<Rightarrow> int \<Rightarrow> int \<Rightarrow> int \<Rightarrow> int \<Rightarrow> bool" where
  "valid_fields year month day hour minute second =
     (1 \<le> year \<and> year \<le> 9999 \<and> 1 \<le> month \<and> month \<le> 12
      \<and> 1 \<le> day \<and> day \<le> days_in_month year month
      \<and> 0 \<le> hour \<and> hour \<le> 23 \<and> 0 \<le> minute \<and> minute \<le> 59
      \<and> 0 \<le> second \<and> second \<le> 59)"

definition seconds_of :: "int \<Rightarrow> int \<Rightarrow> int \<Rightarrow> int \<Rightarrow> int \<Rightarrow> int \<Rightarrow> datetime" where
  "seconds_of year month day hour minute second =
     ymd2ord year month day * 86400 + hour * 3600 + minute * 60 + second"

definition datetime_new :: "int \<Rightarrow> int \<Rightarrow> int \<Rightarrow> int \<Rightarrow> int \<Rightarrow> int \<Rightarrow> exn + datetime" where
  "datetime_new year month day hour minute second =
     (if valid_fields year month day hour minute second
      then Inr (seconds_of year month day hour minute second)
      else Inl ValueError)"

definition timedelta_hours :: "int \<Rightarrow> int" where
  "timedelta_hours h = h * 3600"

subsection \<open>Strings and the library's view of them\<close>

text \<open>
  A Python \<^verbatim>\<open>str\<close> is a sequence of Unicode code points, here a list of natural
  numbers; \<open>lit\<close> gives the code points of an ASCII literal of the program.

  What the program asks of the standard library about strings is not computed by the
  program, and is taken as a parameter \<open>S\<close>:
  \<^item> \<open>decimal_of c\<close> is the decimal digit value of the code point \<open>c\<close> when \<open>c\<close> is
    a Unicode decimal digit, and \<open>None\<close> otherwise. The class \<^verbatim>\<open>\d\<close> of a
    \<^verbatim>\<open>str\<close> pattern matches the code points that have one, and \<^verbatim>\<open>int\<close> reads
    them by it;
  \<^item> \<open>str_lower\<close> is \<^verbatim>\<open>str.lower\<close>;
  \<^item> \<open>path_basename\<close>, \<open>path_splitext\<close> and \<open>path_join\<close> are the functions of
    \<^verbatim>\<open>os.path\<close> of the platform.
\<close>

type_synonym ustring = "nat list"

definition lit :: "string \<Rightarrow> ustring" where
  "lit s = map of_char s"

record pylib =
  decimal_of :: "nat \<Rightarrow> nat option"
  str_lower :: "ustring \<Rightarrow> ustring"
  path_basename :: "ustring \<Rightarrow> ustring"
  path_splitext :: "ustring \<Rightarrow> ustring \<times> ustring"
  path_join :: "ustring \<Rightarrow> ustring \<Rightarrow> ustring"

definition startswith :: "ustring \<Rightarrow> ustring \<Rightarrow> bool" where
  "startswith s p = (take (length p) s = p)"

definition endswith :: "ustring \<Rightarrow> ustring \<Rightarrow> bool" where
  "endswith s suffix =
     (length suffix \<le> length s \<and> drop (length s - length suffix) s = suffix)"

definition endswith_any :: "ustring \<Rightarrow> ustring list \<Rightarrow> bool" where
  "endswith_any s suffixes = list_ex (endswith s) suffixes"


subsection \<open>The filename pattern\<close>

definition isdigit :: "pylib \<Rightarrow> nat \<Rightarrow> bool" where
  "isdigit S c = (decimal_of S c \<noteq> None)"

definition digit_value :: "pylib \<Rightarrow> nat \<Rightarrow> int" where
  "digit_value S c = (case decimal_of S c of Some v \<Rightarrow> int v | None \<Rightarrow> 0)"

text \<open>\<^verbatim>\<open>int\<close> of a group of two decimal digits.\<close>

definition int2 :: "pylib \<Rightarrow> ustring \<Rightarrow> int" where
  "int2 S s = digit_value S (s ! 0) * 10 + digit_value S (s ! 1)"

text \<open>
  \<open>match_here S s\<close> is the attempt to match
  \<^verbatim>\<open>2022(\d{2})(\d{2})_(\d{2})(\d{2})(\d{2})\<close> at the start of \<open>s\<close>; it yields
  the five groups.
\<close>

definition match_here ::
  "pylib \<Rightarrow> ustring \<Rightarrow> (ustring \<times> ustring \<times> ustring \<times> ustring \<times> ustring) option" where
  "match_here S s =
     (if 15 \<le> length s \<and> take 4 s = lit ''2022''
         \<and> list_all (isdigit S) (take 4 (drop 4 s))
         \<and> s ! 8 = of_char CHR ''_''
         \<and> list_all (isdigit S) (take 6 (drop 9 s))
      then Some (take 2 (drop 4 s), take 2 (drop 6 s), take 2 (drop 9 s),
                 take 2 (drop 11 s), take 2 (drop 13 s))
      else None)"

text \<open>\<^verbatim>\<open>re.search\<close> tries the start positions from left to right.\<close>

fun re_search ::
  "pylib \<Rightarrow> ustring \<Rightarrow> (ustring \<times> ustring \<times> ustring \<times> ustring \<times> ustring) option" where
  "re_search S [] = None"
| "re_search S (c # cs) =
     (case match_here S (c # cs) of
        Some g \<Rightarrow> Some g
      | None \<Rightarrow> re_search S cs)"

definition extract_timestamp :: "pylib \<Rightarrow> ustring \<Rightarrow> exn + datetime option" where
  "extract_timestamp S filename =
     (case re_search S filename of
        Some (g1, g2, g3, g4, g5) \<Rightarrow>
          (case datetime_new 2022 (int2 S g1) (int2 S g2) (int2 S g3) (int2 S g4)
                  (int2 S g5) of
             Inr dt \<Rightarrow>
               Inr (Some (if startswith filename (lit ''SAMSUNG'')
                          then dt - timedelta_hours 9 else dt))
           | Inl e \<Rightarrow> (if e = ValueError then Inr None else Inl e))
      | None \<Rightarrow> Inr None)"

text \<open>
  The pattern as the specification words it, by positions: \<open>pattern_at S s i\<close> says
  that \<^verbatim>\<open>2022MMDD_HHMMSS\<close> stands at offset \<open>i\<close> of \<open>s\<close>, and \<open>num_at S s i\<close> is
  the number that the two digits at offsets \<open>i\<close> and \<open>i + 1\<close> write.
\<close>

definition pattern_at :: "pylib \<Rightarrow> ustring \<Rightarrow> nat \<Rightarrow> bool" where
  "pattern_at S s i =
     (i + 15 \<le> length s
      \<and> s ! i = of_char CHR ''2'' \<and> s ! (i + 1) = of_char CHR ''0''
      \<and> s ! (i + 2) = of_char CHR ''2'' \<and> s ! (i + 3) = of_char CHR ''2''
      \<and> isdigit S (s ! (i + 4)) \<and> isdigit S (s ! (i + 5))
      \<and> isdigit S (s ! (i + 6)) \<and> isdigit S (s ! (i + 7))
      \<and> s ! (i + 8) = of_char CHR ''_''
      \<and> isdigit S (s ! (i + 9)) \<and> isdigit S (s ! (i + 10))
      \<and> isdigit S (s ! (i + 11)) \<and> isdigit S (s ! (i + 12))
      \<and> isdigit S (s ! (i + 13)) \<and> isdigit S (s ! (i + 14)))"

definition num_at :: "pylib \<Rightarrow> ustring \<Rightarrow> nat \<Rightarrow> int" where
  "num_at S s i = digit_value S (s ! i) * 10 + digit_value S (s ! (i + 1))"

text \<open>
  An instance of the library's parameter, for evaluation: the decimal digits are the
  ASCII digits and the Arabic-Indic digits (U+0660 to U+0669), lower-casing acts on the
  ASCII letters, and the path functions are those of POSIX.
\<close>

definition decimal_table :: "nat \<Rightarrow> nat option" where
  "decimal_table c =
     (if 48 \<le> c \<and> c \<le> 57 then Some (c - 48)
      else if 1632 \<le> c \<and> c \<le> 1641 then Some (c - 1632)
      else None)"

definition ascii_lower :: "ustring \<Rightarrow> ustring" where
  "ascii_lower s = map (\<lambda>c. if 65 \<le> c \<and> c \<le> 90 then c + 32 else c) s"

definition posix_basename :: "ustring \<Rightarrow> ustring" where
  "posix_basename p = rev (takeWhile (\<lambda>c. c \<noteq> of_char CHR ''/'') (rev p))"

definition posix_join :: "ustring \<Rightarrow> ustring \<Rightarrow> ustring" where
  "posix_join a b =
     (if startswith b (lit ''/'') then b
      else if a = [] \<or> endswith a (lit ''/'') then a @ b
      else a @ lit ''/'' @ b)"

definition rfind :: "ustring \<Rightarrow> nat \<Rightarrow> int" where
  "rfind p c =
     (if c \<in> set p
      then int (length p) - 1 - int (length (takeWhile (\<lambda>x. x \<noteq> c) (rev p)))
      else - 1)"

definition posix_splitext :: "ustring \<Rightarrow> ustring \<times> ustring" where
  "posix_splitext p =
     (let sepIndex = rfind p (of_char CHR ''/''); dotIndex = rfind p (of_char CHR ''.'')
      in if dotIndex > sepIndex
            \<and> list_ex (\<lambda>k. p ! k \<noteq> of_char CHR ''.'') [nat (sepIndex + 1) ..< nat dotIndex]
         then (take (nat dotIndex) p, drop (nat dotIndex) p)
         else (p, []))"

definition posix_lib :: pylib where
  "posix_lib = \<lparr>decimal_of = decimal_table, str_lower = ascii_lower,
                 path_basename = posix_basename, path_splitext = posix_splitext,
                 path_join = posix_join\<rparr>"

section \<open>Coordinate codec\<close>

subsection \<open>Floating-point numbers\<close>

text \<open>
  Coordinates are Python floats. The type of floats is a parameter \<open>'f\<close>, and the
  operations the program applies to them are a parameter \<open>F\<close>, so that nothing is
  assumed of their rounding, nor of infinities and NaN:
  \<^item> \<open>f_lt0 x\<close> is \<^verbatim>\<open>x < 0\<close>, \<open>f_is_zero x\<close> is \<^verbatim>\<open>x == 0\<close> (a float is true
    exactly when it is not zero), \<open>f_abs\<close> is \<^verbatim>\<open>abs\<close>, \<open>f_neg\<close> is unary minus;
  \<^item> \<open>f_int x\<close> is \<^verbatim>\<open>int(x)\<close> and \<open>f_round x\<close> is \<^verbatim>\<open>round(x)\<close>, both
    \<open>None\<close> where Python raises (\<^verbatim>\<open>ValueError\<close> for NaN, \<^verbatim>\<open>OverflowError\<close> for
    an infinity);
  \<^item> \<open>f_of_int n\<close> is the float an integer operand is converted to;
  \<^item> \<open>f_add\<close>, \<open>f_sub\<close>, \<open>f_mul\<close>, \<open>f_div\<close> are the arithmetic of floats;
  \<^item> \<open>f_of_ratio n d\<close> is the float that PIL's \<^verbatim>\<open>IFDRational(n, d)\<close> enters float
    arithmetic with.
\<close>

record 'f floatlib =
  f_lt0 :: "'f \<Rightarrow> bool"
  f_is_zero :: "'f \<Rightarrow> bool"
  f_abs :: "'f \<Rightarrow> 'f"
  f_neg :: "'f \<Rightarrow> 'f"
  f_int :: "'f \<Rightarrow> int option"
  f_round :: "'f \<Rightarrow> int option"
  f_of_int :: "int \<Rightarrow> 'f"
  f_add :: "'f \<Rightarrow> 'f \<Rightarrow> 'f"
  f_sub :: "'f \<Rightarrow> 'f \<Rightarrow> 'f"
  f_mul :: "'f \<Rightarrow> 'f \<Rightarrow> 'f"
  f_div :: "'f \<Rightarrow> 'f \<Rightarrow> 'f"
  f_of_ratio :: "int \<Rightarrow> int \<Rightarrow> 'f"

subsection \<open>Decimal degrees to degrees, minutes, seconds and back\<close>

type_synonym rational = "int \<times> int"

text \<open>
  \<^verbatim>\<open>to_deg\<close> is the local function of \<^verbatim>\<open>set_gps_location\<close>. Both of its calls
  pass a two-element list literal for \<^verbatim>\<open>loc\<close>, modelled as a pair. A failing
  \<^verbatim>\<open>int\<close> or \<^verbatim>\<open>round\<close> is recorded as \<open>ValueError\<close>; the handler around the
  calls treats \<^verbatim>\<open>OverflowError\<close> alike.
\<close>

definition to_deg ::
  "'f floatlib \<Rightarrow> 'f \<Rightarrow> ustring \<times> ustring \<Rightarrow> exn + (rational list \<times> ustring)" where
  "to_deg F v loc =
     (let loc_value = (if f_lt0 F v then snd loc else fst loc);
          abs_value = f_abs F v
      in case f_int F abs_value of
           None \<Rightarrow> Inl ValueError
         | Some deg \<Rightarrow>
             let t1 = f_mul F (f_sub F abs_value (f_of_int F deg)) (f_of_int F 60)
             in case f_int F t1 of
                  None \<Rightarrow> Inl ValueError
                | Some mn \<Rightarrow>
                    (case f_round F
                            (f_mul F (f_mul F (f_sub F t1 (f_of_int F mn)) (f_of_int F 60))
                               (f_of_int F 10000)) of
                       None \<Rightarrow> Inl ValueError
                     | Some sec \<Rightarrow> Inr ([(deg, 1), (mn, 1), (sec, 10000)], loc_value)))"

text \<open>
  \<^verbatim>\<open>get_decimal_from_dms\<close> receives the tuple of rationals that PIL decoded and the
  hemisphere letter. A tuple shorter than three raises \<^verbatim>\<open>IndexError\<close>.
\<close>

definition get_decimal_from_dms :: "'f floatlib \<Rightarrow> rational list \<Rightarrow> ustring \<Rightarrow> exn + 'f" where
  "get_decimal_from_dms F dms ref =
     (if length dms < 3 then Inl IndexError
      else
        let degrees = f_of_ratio F (fst (dms ! 0)) (snd (dms ! 0));
            minutes = f_of_ratio F (fst (dms ! 1)) (snd (dms ! 1));
            seconds = f_of_ratio F (fst (dms ! 2)) (snd (dms ! 2));
            decimal = f_add F (f_add F degrees (f_div F minutes (f_of_int F 60)))
                        (f_div F seconds (f_of_int F 3600))
        in Inr (if ref \<in> set [lit ''S'', lit ''W''] then f_neg F decimal else decimal))"

text \<open>
  Python's one-argument \<^verbatim>\<open>round\<close> on a real number: to the nearest integer, a tie
  going to the even neighbour.
\<close>

definition py_round :: "real \<Rightarrow> int" where
  "py_round x =
     (let f = \<lfloor>x\<rfloor>; d = x - of_int f
      in if d < 1 / 2 then f
         else if 1 / 2 < d then f + 1
         else if even f then f else f + 1)"

text \<open>
  \<open>float_model F val fin eps\<close> relates the floats to the real numbers: \<open>fin x\<close> says
  that \<open>x\<close> is a finite number and \<open>val x\<close> is its value. Comparisons, \<^verbatim>\<open>abs\<close>,
  negation, \<^verbatim>\<open>int\<close> and \<^verbatim>\<open>round\<close> are exact on finite floats, and integers up to
  \<open>2 ^ 23\<close> convert exactly. An arithmetic operation rounds: when its exact result
  \<open>x\<close> has a magnitude of at most \<open>2 ^ 23\<close>, the float \<open>r\<close> it returns is finite,
  within \<open>eps\<close> of \<open>x\<close>, and not negative when \<open>x\<close> is not. IEEE binary64
  arithmetic with rounding to nearest meets this with \<open>eps = 2 ^ - 30\<close>; exact
  arithmetic meets it with \<open>eps = 0\<close>.
\<close>

definition rounds :: "('f \<Rightarrow> real) \<Rightarrow> ('f \<Rightarrow> bool) \<Rightarrow> real \<Rightarrow> 'f \<Rightarrow> real \<Rightarrow> bool" where
  "rounds val fin eps r x =
     (\<bar>x\<bar> \<le> 2 ^ 23 \<longrightarrow> fin r \<and> \<bar>val r - x\<bar> \<le> eps \<and> (0 \<le> x \<longrightarrow> 0 \<le> val r))"

definition float_model :: "'f floatlib \<Rightarrow> ('f \<Rightarrow> real) \<Rightarrow> ('f \<Rightarrow> bool) \<Rightarrow> real \<Rightarrow> bool" where
  "float_model F val fin eps =
     (0 \<le> eps
      \<and> (\<forall>x. fin x \<longrightarrow> f_lt0 F x = (val x < 0))
      \<and> (\<forall>x. fin x \<longrightarrow> f_is_zero F x = (val x = 0))
      \<and> (\<forall>x. fin x \<longrightarrow> fin (f_abs F x) \<and> val (f_abs F x) = \<bar>val x\<bar>)
      \<and> (\<forall>x. fin x \<longrightarrow> fin (f_neg F x) \<and> val (f_neg F x) = - val x)
      \<and> (\<forall>x. fin x \<and> 0 \<le> val x \<longrightarrow> f_int F x = Some \<lfloor>val x\<rfloor>)
      \<and> (\<forall>x. fin x \<longrightarrow> f_round F x = Some (py_round (val x)))
      \<and> (\<forall>n. \<bar>n\<bar> \<le> 2 ^ 23 \<longrightarrow> fin (f_of_int F n) \<and> val (f_of_int F n) = of_int n)
      \<and> (\<forall>x y. fin x \<and> fin y \<longrightarrow> rounds val fin eps (f_add F x y) (val x + val y))
      \<and> (\<forall>x y. fin x \<and> fin y \<longrightarrow> rounds val fin eps (f_sub F x y) (val x - val y))
      \<and> (\<forall>x y. fin x \<and> fin y \<longrightarrow> rounds val fin eps (f_mul F x y) (val x * val y))
      \<and> (\<forall>x y. fin x \<and> fin y \<and> val y \<noteq> 0 \<longrightarrow>
            rounds val fin eps (f_div F x y) (val x / val y))
      \<and> (\<forall>n d. d \<noteq> 0 \<longrightarrow> rounds val fin eps (f_of_ratio F n d) (of_int n / of_int d)))"

text \<open>Exact arithmetic on the real numbers, an instance for evaluation.\<close>

definition exact_floats :: "real floatlib" where
  "exact_floats =
     \<lparr>f_lt0 = (\<lambda>x. x < 0), f_is_zero = (\<lambda>x. x = 0), f_abs = abs, f_neg = uminus,
      f_int = (\<lambda>x. Some (if 0 \<le> x then \<lfloor>x\<rfloor> else \<lceil>x\<rceil>)),
      f_round = (\<lambda>x. Some (py_round x)),
      f_of_int = of_int, f_add = (+), f_sub = (-), f_mul = (*), f_div = (/),
      f_of_ratio = (\<lambda>n d. of_int n / of_int d)\<rparr>"

section \<open>Files and their metadata\<close>

text \<open>
  The image library (PIL), the metadata library (piexif) and the operating system are
  not part of the program; they are modelled by what their calls return. A file has a
  container format, its pixel data, and the four GPS tags that the program reads and
  writes (absent when the file has no \<^verbatim>\<open>GPSInfo\<close>): the two hemisphere letters and
  the two tuples of rationals. Whether a library call fails is decided by the
  environment \<open>env\<close>, for any reason it may have (the content or absence of the file,
  an I/O error, a missing library). A call that fails leaves the files as they were.
\<close>

datatype container = JPEG | PNG | OtherContainer

record gps_ifd =
  GPSLatitudeRef :: "ustring option"
  GPSLatitude :: "rational list option"
  GPSLongitudeRef :: "ustring option"
  GPSLongitude :: "rational list option"

record image_file =
  container :: container
  pixels :: nat
  gps :: "gps_ifd option"

type_synonym fs = "ustring \<rightharpoonup> image_file"

record env =
  piexif_available :: bool
  open_fails :: "ustring \<Rightarrow> bool"
  getexif_fails :: "image_file \<Rightarrow> bool"
  save_fails :: "ustring \<Rightarrow> bool"
  load_fails :: "ustring \<Rightarrow> bool"
  dump_fails :: "gps_ifd \<Rightarrow> bool"
  insert_fails :: "ustring \<Rightarrow> bool"
  remove_fails :: "ustring \<Rightarrow> bool"
  screenshot_listing :: "ustring list option"

text \<open>\<^verbatim>\<open>Image.open\<close>; its errors are subclasses of \<^verbatim>\<open>OSError\<close>.\<close>

definition Image_open :: "env \<Rightarrow> fs \<Rightarrow> ustring \<Rightarrow> exn + image_file" where
  "Image_open e files p =
     (case files p of
        None \<Rightarrow> Inl OSError
      | Some f \<Rightarrow> if open_fails e p then Inl OSError else Inr f)"

text \<open>
  \<^verbatim>\<open>get_exif_data\<close> calls the private method \<^verbatim>\<open>_getexif\<close> of the image and
  decodes the tags; of its result, the entry \<^verbatim>\<open>GPSInfo\<close> is kept.
\<close>

definition get_exif_data :: "env \<Rightarrow> image_file \<Rightarrow> exn + gps_ifd option" where
  "get_exif_data e img =
     (if getexif_fails e img then Inl AttributeError else Inr (gps img))"

definition get_lat_lon :: "'f floatlib \<Rightarrow> gps_ifd option \<Rightarrow> exn + ('f option \<times> 'f option)" where
  "get_lat_lon F exif_data =
     (case exif_data of
        None \<Rightarrow> Inr (None, None)
      | Some gps_info \<Rightarrow>
          (case (GPSLatitude gps_info, GPSLatitudeRef gps_info,
                 GPSLongitude gps_info, GPSLongitudeRef gps_info) of
             (Some gps_latitude, Some gps_latitude_ref,
              Some gps_longitude, Some gps_longitude_ref) \<Rightarrow>
               if gps_latitude \<noteq> [] \<and> gps_latitude_ref \<noteq> []
                  \<and> gps_longitude \<noteq> [] \<and> gps_longitude_ref \<noteq> []
               then
                 (case get_decimal_from_dms F gps_latitude gps_latitude_ref of
                    Inl x \<Rightarrow> Inl x
                  | Inr lat \<Rightarrow>
                      (case get_decimal_from_dms F gps_longitude gps_longitude_ref of
                         Inl x \<Rightarrow> Inl x
                       | Inr lon \<Rightarrow> Inr (Some lat, Some lon)))
               else Inr (None, None)
           | _ \<Rightarrow> Inr (None, None)))"

section \<open>Metadata writer\<close>

text \<open>What the program prints, as far as the properties below speak of it.\<close>

datatype event =
    Warn_piexif_missing
  | Converting ustring
  | Error_converting ustring
  | Warn_unsupported ustring
  | Saved_GPS ustring
  | Removed_original ustring
  | Error_saving ustring
  | Skipping ustring
  | Error_processing ustring exn

text \<open>
  The PNG branch: open the image, convert it to RGB and save it as JPEG under the name
  of the original with the extension replaced. The saved file carries the pixels and
  no metadata.
\<close>

definition convert_png :: "pylib \<Rightarrow> env \<Rightarrow> fs \<Rightarrow> ustring \<Rightarrow> exn + (fs \<times> ustring)" where
  "convert_png S e files filepath =
     (case Image_open e files filepath of
        Inl x \<Rightarrow> Inl x
      | Inr img \<Rightarrow>
          let new_filepath = fst (path_splitext S filepath) @ lit ''.jpg''
          in if save_fails e new_filepath then Inl OSError
             else Inr (files(new_filepath \<mapsto>
                         \<lparr>container = JPEG, pixels = pixels img, gps = None\<rparr>),
                       new_filepath))"

text \<open>
  \<^verbatim>\<open>piexif.load\<close> gives the tags of the file, with an empty GPS dictionary when it
  has none; \<^verbatim>\<open>piexif.dump\<close> encodes the tags; \<^verbatim>\<open>piexif.insert\<close> writes them
  into the file.
\<close>

definition empty_gps :: gps_ifd where
  "empty_gps = \<lparr>GPSLatitudeRef = None, GPSLatitude = None,
                 GPSLongitudeRef = None, GPSLongitude = None\<rparr>"

definition piexif_load :: "env \<Rightarrow> fs \<Rightarrow> ustring \<Rightarrow> exn + gps_ifd" where
  "piexif_load e files p =
     (case files p of
        None \<Rightarrow> Inl OSError
      | Some f \<Rightarrow>
          if load_fails e p then Inl InvalidImageDataError
          else Inr (case gps f of None \<Rightarrow> empty_gps | Some g \<Rightarrow> g))"

definition piexif_dump :: "env \<Rightarrow> gps_ifd \<Rightarrow> exn + gps_ifd" where
  "piexif_dump e g = (if dump_fails e g then Inl StructError else Inr g)"

definition piexif_insert :: "env \<Rightarrow> fs \<Rightarrow> ustring \<Rightarrow> gps_ifd \<Rightarrow> exn + fs" where
  "piexif_insert e files p g =
     (case files p of
        None \<Rightarrow> Inl OSError
      | Some f \<Rightarrow>
          if insert_fails e p then Inl InvalidImageDataError
          else Inr (files(p \<mapsto> f\<lparr>gps := Some g\<rparr>)))"

text \<open>The body of the second \<^verbatim>\<open>try\<close>, up to and including \<^verbatim>\<open>piexif.insert\<close>.\<close>

definition write_exif ::
  "'f floatlib \<Rightarrow> env \<Rightarrow> fs \<Rightarrow> ustring \<Rightarrow> 'f \<Rightarrow> 'f \<Rightarrow> exn + fs" where
  "write_exif F e files filepath lat lon =
     (case piexif_load e files filepath of
        Inl x \<Rightarrow> Inl x
      | Inr exif_dict \<Rightarrow>
          (case to_deg F lat (lit ''N'', lit ''S'') of
             Inl x \<Rightarrow> Inl x
           | Inr (lat_deg, lat_ref) \<Rightarrow>
               (case to_deg F lon (lit ''E'', lit ''W'') of
                  Inl x \<Rightarrow> Inl x
                | Inr (lon_deg, lon_ref) \<Rightarrow>
                    (case piexif_dump e
                            (exif_dict\<lparr>GPSLatitudeRef := Some lat_ref,
                                       GPSLatitude := Some lat_deg,
                                       GPSLongitudeRef := Some lon_ref,
                                       GPSLongitude := Some lon_deg\<rparr>) of
                       Inl x \<Rightarrow> Inl x
                     | Inr exif_bytes \<Rightarrow> piexif_insert e files filepath exif_bytes))))"

text \<open>The removal of the original after a conversion; its \<^verbatim>\<open>OSError\<close> is passed over.\<close>

definition remove_original ::
  "pylib \<Rightarrow> env \<Rightarrow> fs \<Rightarrow> ustring \<Rightarrow> ustring \<Rightarrow> fs \<times> event list" where
  "remove_original S e files filepath original_filepath =
     (if filepath \<noteq> original_filepath \<and> original_filepath \<in> dom files
      then if remove_fails e original_filepath then (files, [])
           else (files(original_filepath := None),
                 [Removed_original (path_basename S original_filepath)])
      else (files, []))"

text \<open>The second \<^verbatim>\<open>try\<close> with its handler.\<close>

definition persist ::
  "pylib \<Rightarrow> 'f floatlib \<Rightarrow> env \<Rightarrow> fs \<Rightarrow> ustring \<Rightarrow> ustring \<Rightarrow> 'f \<Rightarrow> 'f
     \<Rightarrow> (exn + ustring) \<times> fs \<times> event list" where
  "persist S F e files filepath original_filepath lat lon =
     (case write_exif F e files filepath lat lon of
        Inr files' \<Rightarrow>
          (Inr filepath,
           fst (remove_original S e files' filepath original_filepath),
           Saved_GPS filepath # snd (remove_original S e files' filepath original_filepath))
      | Inl x \<Rightarrow>
          if is_Exception x then (Inr original_filepath, files, [Error_saving filepath])
          else (Inl x, files, []))"

definition set_gps_location ::
  "pylib \<Rightarrow> 'f floatlib \<Rightarrow> env \<Rightarrow> fs \<Rightarrow> ustring \<Rightarrow> 'f \<Rightarrow> 'f
     \<Rightarrow> (exn + ustring) \<times> fs \<times> event list" where
  "set_gps_location S F e files filepath lat lon =
     (if \<not> piexif_available e then (Inl ImportError, files, [Warn_piexif_missing])
      else
        let original_filepath = filepath
        in if \<not> endswith_any (str_lower S filepath)
                  [lit ''.jpg'', lit ''.jpeg'', lit ''.tif'', lit ''.tiff'']
           then
             if endswith (str_lower S filepath) (lit ''.png'')
             then
               (case convert_png S e files filepath of
                  Inr (files', new_filepath) \<Rightarrow>
                    (case persist S F e files' new_filepath original_filepath lat lon of
                       (r, files'', evs) \<Rightarrow>
                         (r, files'', Converting (path_basename S filepath) # evs))
                | Inl x \<Rightarrow>
                    if is_Exception x
                    then (Inr original_filepath, files,
                          [Converting (path_basename S filepath),
                           Error_converting (path_basename S filepath)])
                    else (Inl x, files, [Converting (path_basename S filepath)]))
             else (Inr original_filepath, files,
                   [Warn_unsupported (path_basename S filepath)])
           else persist S F e files filepath original_filepath lat lon)"

section \<open>Closest-match resolver\<close>

record reference =
  ref_time :: datetime
  ref_path :: ustring
  ref_filename :: ustring

text \<open>The body of the \<^verbatim>\<open>try\<close> in the loop over the candidates.\<close>

definition read_lat_lon ::
  "'f floatlib \<Rightarrow> env \<Rightarrow> fs \<Rightarrow> ustring \<Rightarrow> exn + ('f option \<times> 'f option)" where
  "read_lat_lon F e files p =
     (case Image_open e files p of
        Inl x \<Rightarrow> Inl x
      | Inr img \<Rightarrow>
          (case get_exif_data e img of
             Inl x \<Rightarrow> Inl x
           | Inr exif \<Rightarrow> get_lat_lon F exif))"

text \<open>The truth value of \<^verbatim>\<open>None\<close> and of a float: only a float other than zero is true.\<close>

fun truthy :: "'f floatlib \<Rightarrow> 'f option \<Rightarrow> bool" where
  "truthy F None = False"
| "truthy F (Some x) = (\<not> f_is_zero F x)"

text \<open>The loop over the sorted candidates, with its \<^verbatim>\<open>except Exception: continue\<close>.\<close>

fun scan_candidates ::
  "'f floatlib \<Rightarrow> env \<Rightarrow> fs \<Rightarrow> (int \<times> reference) list \<Rightarrow> exn + ('f option \<times> 'f option)" where
  "scan_candidates F e files [] = Inr (None, None)"
| "scan_candidates F e files (c # cs) =
     (case read_lat_lon F e files (ref_path (snd c)) of
        Inr (lat, lon) \<Rightarrow>
          if truthy F lat \<and> truthy F lon then Inr (lat, lon)
          else scan_candidates F e files cs
      | Inl x \<Rightarrow>
          if is_Exception x then scan_candidates F e files cs else Inl x)"

definition find_closest_gps_in_reference ::
  "pylib \<Rightarrow> 'f floatlib \<Rightarrow> env \<Rightarrow> fs \<Rightarrow> ustring \<Rightarrow> reference list
     \<Rightarrow> exn + ('f option \<times> 'f option)" where
  "find_closest_gps_in_reference S F e files target_filename reference_images =
     (case extract_timestamp S target_filename of
        Inl x \<Rightarrow> Inl x
      | Inr None \<Rightarrow> Inr (None, None)
      | Inr (Some target_time) \<Rightarrow>
          let candidates = map (\<lambda>r. (\<bar>ref_time r - target_time\<bar>, r)) reference_images
          in if candidates = [] then Inr (None, None)
             else scan_candidates F e files (sort_key fst candidates))"

text \<open>
  A reference is usable when reading its file raises nothing and gives a latitude and a
  longitude that both pass the test \<^verbatim>\<open>if lat and lon\<close>; \<open>delta t r\<close> is its
  distance in time from \<open>t\<close>.
\<close>

definition usable :: "'f floatlib \<Rightarrow> env \<Rightarrow> fs \<Rightarrow> reference \<Rightarrow> bool" where
  "usable F e files r =
     (case read_lat_lon F e files (ref_path r) of
        Inr (lat, lon) \<Rightarrow> truthy F lat \<and> truthy F lon
      | Inl x \<Rightarrow> False)"

definition delta :: "datetime \<Rightarrow> reference \<Rightarrow> int" where
  "delta t r = \<bar>ref_time r - t\<bar>"

section \<open>Batch orchestrator\<close>

record 'f photo_data =
  photo_lat :: 'f
  photo_lon :: 'f
  photo_img :: ustring
  photo_title :: ustring
  photo_screenshot :: "ustring option"

definition PHOTOS_DIR :: ustring where
  "PHOTOS_DIR = lit ''photos''"


definition find_screenshot :: "pylib \<Rightarrow> env \<Rightarrow> ustring \<Rightarrow> ustring option" where
  "find_screenshot S e final_filename =
     (case screenshot_listing e of
        None \<Rightarrow> None
      | Some listing \<Rightarrow>
          let target_base = str_lower S (fst (path_splitext S final_filename))
          in map_option (\<lambda>f. lit ''screenshot/'' @ f)
               (find (\<lambda>f. \<not> startswith f (lit ''.'')
                           \<and> str_lower S (fst (path_splitext S f)) = target_base)
                  listing))"

text \<open>
  The part of the loop body that follows the resolver: the test \<^verbatim>\<open>if lat and lon\<close>,
  the write and the new entry of \<^verbatim>\<open>new_photos_data\<close>.
\<close>

definition geotag_photo ::
  "pylib \<Rightarrow> 'f floatlib \<Rightarrow> env \<Rightarrow> fs \<Rightarrow> ustring \<Rightarrow> 'f option \<times> 'f option
     \<Rightarrow> (exn + 'f photo_data option) \<times> fs \<times> event list" where
  "geotag_photo S F e files name coords =
     (case coords of
        (Some lat, Some lon) \<Rightarrow>
          if truthy F (Some lat) \<and> truthy F (Some lon)
          then
            (case set_gps_location S F e files (path_join S PHOTOS_DIR name) lat lon of
               (Inl x, files', evs) \<Rightarrow> (Inl x, files', evs)
             | (Inr final_path, files', evs) \<Rightarrow>
                 let final_filename = path_basename S final_path
                 in (Inr (Some \<lparr>photo_lat = lat, photo_lon = lon,
                                 photo_img = PHOTOS_DIR @ lit ''/'' @ final_filename,
                                 photo_title = final_filename,
                                 photo_screenshot = find_screenshot S e final_filename\<rparr>),
                     files', evs))
          else (Inr None, files, [Skipping name])
      | _ \<Rightarrow> (Inr None, files, [Skipping name]))"




section \<open>Instances for evaluation\<close>

text \<open>An environment in which the metadata library is present and no call fails.\<close>

definition quiet_env :: env where
  "quiet_env =
     \<lparr>piexif_available = True, open_fails = (\<lambda>p. False), getexif_fails = (\<lambda>f. False),
      save_fails = (\<lambda>p. False), load_fails = (\<lambda>p. False), dump_fails = (\<lambda>g. False),
      insert_fails = (\<lambda>p. False), remove_fails = (\<lambda>p. False),
      screenshot_listing = None\<rparr>"

definition plain_image :: "container \<Rightarrow> image_file" where
  "plain_image c = \<lparr>container = c, pixels = 0, gps = None\<rparr>"

definition tagged_jpeg :: "rational list \<Rightarrow> string \<Rightarrow> rational list \<Rightarrow> string \<Rightarrow> image_file" where
  "tagged_jpeg la lar lo lor =
     \<lparr>container = JPEG, pixels = 0,
      gps = Some \<lparr>GPSLatitudeRef = Some (lit lar), GPSLatitude = Some la,
                  GPSLongitudeRef = Some (lit lor), GPSLongitude = Some lo\<rparr>\<rparr>"

text \<open>
  A reference library around the target \<^verbatim>\<open>TRIP_20220815_120000.jpg\<close>: a photo with
  no GPS tags, a photo taken on the equator at 5 degrees east, and photos at
  A = (48, 2) and B = (40, -74).
\<close>

definition demo_target :: ustring where
  "demo_target = lit ''TRIP_20220815_120000.jpg''"

definition demo_files :: fs where
  "demo_files =
     [lit ''ref/n.jpg'' \<mapsto> plain_image JPEG,
      lit ''ref/z.jpg'' \<mapsto>
        tagged_jpeg [(0, 1), (0, 1), (0, 1)] ''N'' [(5, 1), (0, 1), (0, 1)] ''E'',
      lit ''ref/a.jpg'' \<mapsto>
        tagged_jpeg [(48, 1), (0, 1), (0, 1)] ''N'' [(2, 1), (0, 1), (0, 1)] ''E'',
      lit ''ref/b.jpg'' \<mapsto>
        tagged_jpeg [(40, 1), (0, 1), (0, 1)] ''N'' [(74, 1), (0, 1), (0, 1)] ''W'']"

definition ref_at :: "int \<Rightarrow> string \<Rightarrow> reference" where
  "ref_at minute name =
     \<lparr>ref_time = seconds_of 2022 8 15 12 minute 0, ref_path = lit ''ref/'' @ lit name,
      ref_filename = lit name\<rparr>"

section \<open>Properties of the timestamp codec\<close>

lemma pattern_at_drop: "pattern_at S s i = pattern_at S (drop i s) 0"
  by (auto simp: pattern_at_def add.commute)

lemma long_list_15:
  assumes "15 \<le> length (t::'a list)"
  obtains x0 x1 x2 x3 x4 x5 x6 x7 x8 x9 x10 x11 x12 x13 x14 r
  where "t = x0#x1#x2#x3#x4#x5#x6#x7#x8#x9#x10#x11#x12#x13#x14#r"
  using assms by (auto simp: numeral_eq_Suc Suc_le_length_iff)

lemma match_here_explicit:
  "(match_here S (x0#x1#x2#x3#x4#x5#x6#x7#x8#x9#x10#x11#x12#x13#x14#r) \<noteq> None)
   = pattern_at S (x0#x1#x2#x3#x4#x5#x6#x7#x8#x9#x10#x11#x12#x13#x14#r) 0"
  by (simp add: match_here_def pattern_at_def lit_def numeral_eq_Suc conj_ac)

lemma match_here_iff0: "(match_here S t \<noteq> None) = pattern_at S t 0"
proof (cases "15 \<le> length t")
  case True
  then show ?thesis by (elim long_list_15) (simp only: match_here_explicit)
next
  case False
  then show ?thesis by (simp add: match_here_def pattern_at_def)
qed

lemma match_here_None_iff: "(match_here S t = None) = (\<not> pattern_at S t 0)"
  using match_here_iff0 [of S t] by blast

lemma match_here_Some:
  "pattern_at S t 0 \<Longrightarrow> match_here S t = Some (take 2 (drop 4 t), take 2 (drop 6 t),
      take 2 (drop 9 t), take 2 (drop 11 t), take 2 (drop 13 t))"
  using match_here_None_iff [of S t] by (simp add: match_here_def split: if_splits)

lemma pattern_at_Cons: "pattern_at S (c # cs) (Suc k) = pattern_at S cs k"
  by (simp add: pattern_at_drop [of S "c # cs"] pattern_at_drop [of S cs])

lemma re_search_first:
  "pattern_at S s i \<Longrightarrow> \<forall>j<i. \<not> pattern_at S s j
     \<Longrightarrow> re_search S s = match_here S (drop i s)"
proof (induction s arbitrary: i)
  case Nil
  then show ?case by (simp add: pattern_at_def)
next
  case (Cons c cs)
  show ?case
  proof (cases i)
    case 0
    with Cons.prems(1) have "match_here S (c # cs) \<noteq> None"
      by (simp only: match_here_None_iff simp_thms)
    with 0 show ?thesis by (auto split: option.splits)
  next
    case (Suc k)
    with Cons.prems(2) have "\<not> pattern_at S (c # cs) 0" by blast
    then have none: "match_here S (c # cs) = None"
      by (simp only: match_here_None_iff simp_thms)
    from Cons.prems Suc have "pattern_at S cs k"
      by (simp add: pattern_at_Cons)
    moreover have "\<forall>j<k. \<not> pattern_at S cs j"
    proof (intro allI impI)
      fix j assume "j < k"
      then have "Suc j < i" using Suc by simp
      with Cons.prems(2) have "\<not> pattern_at S (c # cs) (Suc j)" by blast
      then show "\<not> pattern_at S cs j" by (simp add: pattern_at_Cons)
    qed
    ultimately have "re_search S cs = match_here S (drop k cs)"
      by (rule Cons.IH)
    with none Suc show ?thesis by simp
  qed
qed

lemma re_search_none: "\<forall>i. \<not> pattern_at S s i \<Longrightarrow> re_search S s = None"
proof (induction s)
  case Nil
  then show ?case by simp
next
  case (Cons c cs)
  then have "\<not> pattern_at S (c # cs) 0" by blast
  then have none: "match_here S (c # cs) = None"
    by (simp only: match_here_None_iff simp_thms)
  have "\<forall>i. \<not> pattern_at S cs i"
    using Cons.prems pattern_at_Cons [of S c cs] by blast
  then have "re_search S cs = None" by (rule Cons.IH)
  with none show ?case by simp
qed

lemma int2_group:
  "i + k + 2 \<le> length s \<Longrightarrow> int2 S (take 2 (drop k (drop i s))) = num_at S s (i + k)"
  by (simp add: int2_def num_at_def add.commute add.left_commute)

lemma re_search_groups:
  assumes "pattern_at S s i" "\<forall>j<i. \<not> pattern_at S s j"
  shows "re_search S s = Some (take 2 (drop 4 (drop i s)), take 2 (drop 6 (drop i s)),
      take 2 (drop 9 (drop i s)), take 2 (drop 11 (drop i s)), take 2 (drop 13 (drop i s)))"
proof -
  from assms(1) have "pattern_at S (drop i s) 0" by (simp add: pattern_at_drop [of S s i])
  then show ?thesis
    using re_search_first [OF assms] match_here_Some by simp
qed

lemma extract_timestamp_at:
  assumes "pattern_at S s i" "\<forall>j<i. \<not> pattern_at S s j"
  shows "extract_timestamp S s =
     (case datetime_new 2022 (num_at S s (i + 4)) (num_at S s (i + 6)) (num_at S s (i + 9))
             (num_at S s (i + 11)) (num_at S s (i + 13)) of
        Inr dt \<Rightarrow> Inr (Some (if startswith s (lit ''SAMSUNG'')
                                 then dt - timedelta_hours 9 else dt))
      | Inl e \<Rightarrow> (if e = ValueError then Inr None else Inl e))"
proof -
  from assms(1) have len: "i + 15 \<le> length s" by (simp add: pattern_at_def)
  have g: "int2 S (take 2 (drop 4 (drop i s))) = num_at S s (i + 4)"
    "int2 S (take 2 (drop 6 (drop i s))) = num_at S s (i + 6)"
    "int2 S (take 2 (drop 9 (drop i s))) = num_at S s (i + 9)"
    "int2 S (take 2 (drop 11 (drop i s))) = num_at S s (i + 11)"
    "int2 S (take 2 (drop 13 (drop i s))) = num_at S s (i + 13)"
    using len by (simp_all only: int2_group)
  show ?thesis
    unfolding extract_timestamp_def re_search_groups [OF assms]
    by (simp only: g prod.case option.case)
qed


text \<open>
  Claim C2, amended. \<^verbatim>\<open>re.search\<close> stops at the leftmost occurrence of the pattern
  \<^verbatim>\<open>2022MMDD_HHMMSS\<close>. When the groups read at that occurrence (offset \<open>i\<close>) form a
  valid date and time of day, \<open>extract_timestamp\<close> returns exactly that date and time;
  when the filename starts with \<^verbatim>\<open>SAMSUNG\<close>, it returns the instant 9 hours (32400
  seconds) earlier. The digits are the Unicode decimal digits.
\<close>

theorem extract_timestamp_valid:
  assumes "pattern_at S filename i" and "\<forall>j<i. \<not> pattern_at S filename j"
    and "valid_fields 2022 (num_at S filename (i + 4)) (num_at S filename (i + 6))
           (num_at S filename (i + 9)) (num_at S filename (i + 11))
           (num_at S filename (i + 13))"
  shows "extract_timestamp S filename =
     Inr (Some (seconds_of 2022 (num_at S filename (i + 4)) (num_at S filename (i + 6))
                  (num_at S filename (i + 9)) (num_at S filename (i + 11))
                  (num_at S filename (i + 13))
                - (if startswith filename (lit ''SAMSUNG'') then 9 * 3600 else 0)))"
  using assms(3)
  by (simp add: extract_timestamp_at [OF assms(1,2)] datetime_new_def timedelta_hours_def)

theorem extract_timestamp_valid_witness:
  "pattern_at posix_lib (lit ''SAMSUNG_20221127_232618.jpg'') 8
   \<and> list_all (\<lambda>j. \<not> pattern_at posix_lib (lit ''SAMSUNG_20221127_232618.jpg'') j) [0..<8]
   \<and> valid_fields 2022 11 27 23 26 18
   \<and> extract_timestamp posix_lib (lit ''SAMSUNG_20221127_232618.jpg'')
       = Inr (Some (seconds_of 2022 11 27 23 26 18 - 9 * 3600))"
proof -
  let ?f = "lit ''SAMSUNG_20221127_232618.jpg''"
  have p: "pattern_at posix_lib ?f 8"
    by code_simp
  have q': "list_all (\<lambda>j. \<not> pattern_at posix_lib ?f j) [0..<8]"
    by code_simp
  then have q: "\<forall>j<8. \<not> pattern_at posix_lib ?f j"
    by (simp add: list_all_iff)
  have n: "num_at posix_lib ?f (8 + 4) = 11" "num_at posix_lib ?f (8 + 6) = 27"
    "num_at posix_lib ?f (8 + 9) = 23" "num_at posix_lib ?f (8 + 11) = 26"
    "num_at posix_lib ?f (8 + 13) = 18"
    by code_simp+
  have v: "valid_fields 2022 11 27 23 26 18"
    by code_simp
  have s: "startswith ?f (lit ''SAMSUNG'')"
    by code_simp
  from extract_timestamp_valid [of posix_lib ?f 8] p q v n s
  have "extract_timestamp posix_lib ?f
      = Inr (Some (seconds_of 2022 11 27 23 26 18 - 9 * 3600))"
    by simp
  with p q' v show ?thesis by blast
qed

text \<open>
  The claim as it is worded, for every filename that contains the pattern with valid
  groups, fails where an earlier occurrence has invalid groups: the valid occurrence at
  offset 18 is never looked at.
\<close>

theorem extract_timestamp_later_occurrence:
  "pattern_at posix_lib (lit ''A_20221301_120000_20221127_101010.jpg'') 18
   \<and> num_at posix_lib (lit ''A_20221301_120000_20221127_101010.jpg'') (18 + 4) = 11
   \<and> num_at posix_lib (lit ''A_20221301_120000_20221127_101010.jpg'') (18 + 6) = 27
   \<and> num_at posix_lib (lit ''A_20221301_120000_20221127_101010.jpg'') (18 + 9) = 10
   \<and> num_at posix_lib (lit ''A_20221301_120000_20221127_101010.jpg'') (18 + 11) = 10
   \<and> num_at posix_lib (lit ''A_20221301_120000_20221127_101010.jpg'') (18 + 13) = 10
   \<and> valid_fields 2022 11 27 10 10 10
   \<and> extract_timestamp posix_lib (lit ''A_20221301_120000_20221127_101010.jpg'') = Inr None"
  by code_simp

text \<open>
  Claim C8. When the pattern stands nowhere in the filename, or the groups of its
  leftmost occurrence (the match) are not a valid date and time of day (month 13, say),
  \<open>extract_timestamp\<close> returns \<^verbatim>\<open>None\<close>; it does not raise.
\<close>

theorem extract_timestamp_absent:
  assumes "(\<forall>i. \<not> pattern_at S filename i)
     \<or> (\<exists>i. pattern_at S filename i \<and> (\<forall>j<i. \<not> pattern_at S filename j)
          \<and> \<not> valid_fields 2022 (num_at S filename (i + 4)) (num_at S filename (i + 6))
           (num_at S filename (i + 9)) (num_at S filename (i + 11))
           (num_at S filename (i + 13)))"
  shows "extract_timestamp S filename = Inr None"
  using assms
proof (elim disjE exE conjE)
  assume "\<forall>i. \<not> pattern_at S filename i"
  then show ?thesis by (simp add: extract_timestamp_def re_search_none)
next
  fix i
  assume a: "pattern_at S filename i" "\<forall>j<i. \<not> pattern_at S filename j"
    and "\<not> valid_fields 2022 (num_at S filename (i + 4)) (num_at S filename (i + 6))
           (num_at S filename (i + 9)) (num_at S filename (i + 11))
           (num_at S filename (i + 13))"
  then show ?thesis
    by (simp add: extract_timestamp_at [OF a] datetime_new_def)
qed

theorem extract_timestamp_absent_witness:
  "(\<forall>i. \<not> pattern_at posix_lib (lit ''holiday.jpg'') i)
   \<and> extract_timestamp posix_lib (lit ''holiday.jpg'') = Inr None
   \<and> pattern_at posix_lib (lit ''IMG_20221301_120000.jpg'') 4
   \<and> list_all (\<lambda>j. \<not> pattern_at posix_lib (lit ''IMG_20221301_120000.jpg'') j) [0..<4]
   \<and> \<not> valid_fields 2022 13 1 12 0 0
   \<and> extract_timestamp posix_lib (lit ''IMG_20221301_120000.jpg'') = Inr None"
proof -
  let ?f = "lit ''IMG_20221301_120000.jpg''"
  have a: "\<forall>i. \<not> pattern_at posix_lib (lit ''holiday.jpg'') i"
    by (simp add: pattern_at_def lit_def)
  have p: "pattern_at posix_lib ?f 4"
    by code_simp
  have q': "list_all (\<lambda>j. \<not> pattern_at posix_lib ?f j) [0..<4]"
    by code_simp
  then have q: "\<forall>j<4. \<not> pattern_at posix_lib ?f j"
    by (simp add: list_all_iff)
  have n: "num_at posix_lib ?f (4 + 4) = 13" "num_at posix_lib ?f (4 + 6) = 1"
    "num_at posix_lib ?f (4 + 9) = 12" "num_at posix_lib ?f (4 + 11) = 0"
    "num_at posix_lib ?f (4 + 13) = 0"
    by code_simp+
  have v: "\<not> valid_fields 2022 13 1 12 0 0"
    by code_simp
  have "\<exists>i. pattern_at posix_lib ?f i \<and> (\<forall>j<i. \<not> pattern_at posix_lib ?f j)
          \<and> \<not> valid_fields 2022 (num_at posix_lib ?f (i + 4)) (num_at posix_lib ?f (i + 6))
           (num_at posix_lib ?f (i + 9)) (num_at posix_lib ?f (i + 11))
           (num_at posix_lib ?f (i + 13))"
    using p q v n by (intro exI [of _ 4]) (simp only: simp_thms)
  then have "extract_timestamp posix_lib ?f = Inr None"
    using extract_timestamp_absent [of posix_lib ?f] by blast
  moreover have "extract_timestamp posix_lib (lit ''holiday.jpg'') = Inr None"
    using extract_timestamp_absent [of posix_lib "lit ''holiday.jpg''"] a by blast
  ultimately show ?thesis using a p q' v by blast
qed

section \<open>Properties of the metadata writer\<close>




lemma persist_success:
  "write_exif F e files p lat lon = Inr files'
     \<Longrightarrow> persist S F e files p orig lat lon =
        (Inr p, fst (remove_original S e files' p orig),
         Saved_GPS p # snd (remove_original S e files' p orig))"
  by (simp add: persist_def)



text \<open>
  Claim C9. When the metadata library piexif cannot be imported, \<open>set_gps_location\<close>
  prints its warning and raises the \<^verbatim>\<open>ImportError\<close> again: the result is the
  exception, not the original path, and no file is touched.
\<close>

theorem set_gps_location_missing_dependency:
  "\<not> piexif_available e \<Longrightarrow>
     set_gps_location S F e files filepath lat lon
       = (Inl ImportError, files, [Warn_piexif_missing])"
  by (simp add: set_gps_location_def)

theorem set_gps_location_missing_dependency_witness:
  "\<not> piexif_available (quiet_env\<lparr>piexif_available := False\<rparr>)
   \<and> set_gps_location posix_lib exact_floats (quiet_env\<lparr>piexif_available := False\<rparr>)
        [lit ''photos/a.jpg'' \<mapsto> plain_image JPEG] (lit ''photos/a.jpg'') 48 2
      = (Inl ImportError, [lit ''photos/a.jpg'' \<mapsto> plain_image JPEG], [Warn_piexif_missing])"
  using set_gps_location_missing_dependency
    [of "quiet_env\<lparr>piexif_available := False\<rparr>" posix_lib exact_floats
        "[lit ''photos/a.jpg'' \<mapsto> plain_image JPEG]" "lit ''photos/a.jpg''" 48 2]
  by (simp add: quiet_env_def)

text \<open>
  Claim C7, amended. When piexif is available and the lower-cased name ends with none of
  \<^verbatim>\<open>.jpg\<close>, \<^verbatim>\<open>.jpeg\<close>, \<^verbatim>\<open>.tif\<close>, \<^verbatim>\<open>.tiff\<close> and \<^verbatim>\<open>.png\<close>,
  \<open>set_gps_location\<close> refuses: it returns the original path and leaves every file as
  it was.
\<close>

theorem set_gps_location_unsupported:
  assumes "piexif_available e"
    and "\<not> endswith_any (str_lower S filepath)
             [lit ''.jpg'', lit ''.jpeg'', lit ''.tif'', lit ''.tiff'']"
    and "\<not> endswith (str_lower S filepath) (lit ''.png'')"
  shows "set_gps_location S F e files filepath lat lon
       = (Inr filepath, files, [Warn_unsupported (path_basename S filepath)])"
  using assms by (simp add: set_gps_location_def)

theorem set_gps_location_unsupported_witness:
  "piexif_available quiet_env
   \<and> \<not> endswith_any (str_lower posix_lib (lit ''photos/a.bmp''))
             [lit ''.jpg'', lit ''.jpeg'', lit ''.tif'', lit ''.tiff'']
   \<and> \<not> endswith (str_lower posix_lib (lit ''photos/a.bmp'')) (lit ''.png'')
   \<and> set_gps_location posix_lib exact_floats quiet_env
        [lit ''photos/a.bmp'' \<mapsto> plain_image OtherContainer] (lit ''photos/a.bmp'') 48 2
      = (Inr (lit ''photos/a.bmp''), [lit ''photos/a.bmp'' \<mapsto> plain_image OtherContainer],
         [Warn_unsupported (lit ''a.bmp'')])"
proof -
  have a: "piexif_available quiet_env" by (simp add: quiet_env_def)
  have b: "\<not> endswith_any (str_lower posix_lib (lit ''photos/a.bmp''))
             [lit ''.jpg'', lit ''.jpeg'', lit ''.tif'', lit ''.tiff'']"
    by code_simp
  have c: "\<not> endswith (str_lower posix_lib (lit ''photos/a.bmp'')) (lit ''.png'')"
    by code_simp
  have d: "path_basename posix_lib (lit ''photos/a.bmp'') = lit ''a.bmp''"
    by code_simp
  from set_gps_location_unsupported [OF a b c, of exact_floats
      "[lit ''photos/a.bmp'' \<mapsto> plain_image OtherContainer]" 48 2] a b c d
  show ?thesis by simp
qed

text \<open>
  Without that condition the claim fails: when piexif is missing, the import at the head
  of the function raises before the extension is looked at, and no path is returned.
\<close>

theorem set_gps_location_unsupported_no_piexif:
  "\<not> endswith_any (str_lower posix_lib (lit ''photos/a.bmp''))
             [lit ''.jpg'', lit ''.jpeg'', lit ''.tif'', lit ''.tiff'']
   \<and> \<not> endswith (str_lower posix_lib (lit ''photos/a.bmp'')) (lit ''.png'')
   \<and> set_gps_location posix_lib exact_floats (quiet_env\<lparr>piexif_available := False\<rparr>)
        [lit ''photos/a.bmp'' \<mapsto> plain_image OtherContainer] (lit ''photos/a.bmp'') 48 2
      = (Inl ImportError, [lit ''photos/a.bmp'' \<mapsto> plain_image OtherContainer],
         [Warn_piexif_missing])"
proof -
  have b: "\<not> endswith_any (str_lower posix_lib (lit ''photos/a.bmp''))
             [lit ''.jpg'', lit ''.jpeg'', lit ''.tif'', lit ''.tiff'']"
    by code_simp
  have c: "\<not> endswith (str_lower posix_lib (lit ''photos/a.bmp'')) (lit ''.png'')"
    by code_simp
  show ?thesis using b c by (simp add: set_gps_location_def quiet_env_def)
qed



section \<open>Properties of the closest-match resolver\<close>

lemma get_lat_lon_exn: "get_lat_lon F exif = Inl x \<Longrightarrow> is_Exception x"
  by (auto simp: get_lat_lon_def get_decimal_from_dms_def Let_def
      split: option.splits sum.splits if_splits)

lemma read_lat_lon_exn: "read_lat_lon F e files p = Inl x \<Longrightarrow> is_Exception x"
  by (auto simp: read_lat_lon_def Image_open_def get_exif_data_def get_lat_lon_exn
      split: option.splits sum.splits if_splits)

lemma scan_candidates_find:
  "scan_candidates F e files cs =
     (case find (\<lambda>c. usable F e files (snd c)) cs of
        None \<Rightarrow> Inr (None, None)
      | Some c \<Rightarrow> read_lat_lon F e files (ref_path (snd c)))"
proof (induction cs)
  case Nil
  then show ?case by simp
next
  case (Cons c cs)
  show ?case
  proof (cases "read_lat_lon F e files (ref_path (snd c))")
    case (Inl x)
    then have "is_Exception x" by (rule read_lat_lon_exn)
    with Inl Cons.IH show ?thesis by (simp add: usable_def)
  next
    case (Inr v)
    obtain lat lon where v: "v = (lat, lon)" by (cases v)
    with Inr Cons.IH show ?thesis by (simp add: usable_def)
  qed
qed

lemma sort_key_pairs:
  "sort_key fst (map (\<lambda>r. (k r, r)) xs) = map (\<lambda>r. (k r, r)) (sort_key k xs)"
proof (induction xs)
  case Nil
  then show ?case by simp
next
  case (Cons x xs)
  have ins: "insort_key fst (k x, x) (map (\<lambda>r. (k r, r)) ys)
      = map (\<lambda>r. (k r, r)) (insort_key k x ys)" for ys
    by (induction ys) simp_all
  from Cons show ?case by (simp add: ins)
qed

lemma find_map_pairs:
  "find (\<lambda>c. P (snd c)) (map (\<lambda>r. (k r, r)) xs) = map_option (\<lambda>r. (k r, r)) (find P xs)"
  by (induction xs) simp_all

lemma find_closest_eq:
  assumes "extract_timestamp S target = Inr (Some t)"
  shows "find_closest_gps_in_reference S F e files target refs =
     (case find (usable F e files) (sort_key (delta t) refs) of
        None \<Rightarrow> Inr (None, None)
      | Some r \<Rightarrow> read_lat_lon F e files (ref_path r))"
proof (cases "refs = []")
  case True
  with assms show ?thesis by (simp add: find_closest_gps_in_reference_def)
next
  case False
  have d: "(\<lambda>r. (\<bar>ref_time r - t\<bar>, r)) = (\<lambda>r. (delta t r, r))"
    by (simp add: delta_def)
  from False assms have "find_closest_gps_in_reference S F e files target refs
      = scan_candidates F e files (sort_key fst (map (\<lambda>r. (delta t r, r)) refs))"
    by (simp add: find_closest_gps_in_reference_def d)
  also have "\<dots> = (case find (\<lambda>c. usable F e files (snd c))
                        (map (\<lambda>r. (delta t r, r)) (sort_key (delta t) refs)) of
        None \<Rightarrow> Inr (None, None)
      | Some c \<Rightarrow> read_lat_lon F e files (ref_path (snd c)))"
    by (simp only: scan_candidates_find sort_key_pairs)
  also have "\<dots> = (case find (usable F e files) (sort_key (delta t) refs) of
        None \<Rightarrow> Inr (None, None)
      | Some r \<Rightarrow> read_lat_lon F e files (ref_path r))"
    unfolding find_map_pairs by (cases "find (usable F e files) (sort_key (delta t) refs)") simp_all
  finally show ?thesis .
qed




lemma find_filter_same:
  "\<forall>x\<in>set xs. \<not> Q x \<longrightarrow> \<not> P x \<Longrightarrow> find P (filter Q xs) = find P xs"
  by (induction xs) auto

lemma zero_not_usable:
  assumes "f_is_zero F lat \<or> f_is_zero F lon"
    and "read_lat_lon F e files p = Inr (Some lat, Some lon)"
  shows "ref_path r = p \<Longrightarrow> \<not> usable F e files r"
  using assms by (auto simp: usable_def)

lemma find_closest_skip:
  assumes "f_is_zero F lat \<or> f_is_zero F lon"
    and "read_lat_lon F e files p = Inr (Some lat, Some lon)"
  shows "find_closest_gps_in_reference S F e files target refs
     = find_closest_gps_in_reference S F e files target (filter (\<lambda>r. ref_path r \<noteq> p) refs)"
proof (cases "extract_timestamp S target")
  case (Inl x)
  then show ?thesis by (simp add: find_closest_gps_in_reference_def)
next
  case (Inr v)
  show ?thesis
  proof (cases v)
    case None
    with Inr show ?thesis by (simp add: find_closest_gps_in_reference_def)
  next
    case (Some t)
    with Inr have ts: "extract_timestamp S target = Inr (Some t)" by simp
    have "find (usable F e files) (sort_key (delta t) (filter (\<lambda>r. ref_path r \<noteq> p) refs))
        = find (usable F e files) (filter (\<lambda>r. ref_path r \<noteq> p) (sort_key (delta t) refs))"
      by (simp only: filter_sort)
    also have "\<dots> = find (usable F e files) (sort_key (delta t) refs)"
      using zero_not_usable [OF assms] by (intro find_filter_same) auto
    finally show ?thesis
      by (simp only: find_closest_eq [OF ts])
  qed
qed





lemma demo_reads:
  "read_lat_lon exact_floats quiet_env demo_files (lit ''ref/'' @ lit ''n.jpg'') = Inr (None, None)"
  "read_lat_lon exact_floats quiet_env demo_files (lit ''ref/'' @ lit ''z.jpg'') = Inr (Some 0, Some 5)"
  "read_lat_lon exact_floats quiet_env demo_files (lit ''ref/'' @ lit ''a.jpg'') = Inr (Some 48, Some 2)"
  "read_lat_lon exact_floats quiet_env demo_files (lit ''ref/'' @ lit ''b.jpg'') = Inr (Some 40, Some (- 74))"
  by (simp_all add: read_lat_lon_def Image_open_def get_exif_data_def get_lat_lon_def
      get_decimal_from_dms_def demo_files_def quiet_env_def plain_image_def tagged_jpeg_def
      exact_floats_def lit_def Let_def)





text \<open>
  Claim C10. A coordinate whose latitude or longitude is zero counts as absent. The
  resolver gives the same result as on the index without the references whose file
  decodes to such a coordinate, and the orchestrator, handed such a coordinate, skips
  the photo: it writes nothing and adds no entry to \<^verbatim>\<open>new_photos_data\<close>.
\<close>

theorem zero_coordinate_absent:
  assumes "f_is_zero F lat \<or> f_is_zero F lon"
  shows "(read_lat_lon F e files p = Inr (Some lat, Some lon) \<longrightarrow>
            find_closest_gps_in_reference S F e files target refs
              = find_closest_gps_in_reference S F e files target
                  (filter (\<lambda>r. ref_path r \<noteq> p) refs))
       \<and> geotag_photo S F e files name (Some lat, Some lon)
           = (Inr None, files, [Skipping name])"
proof (intro conjI impI)
  assume "read_lat_lon F e files p = Inr (Some lat, Some lon)"
  with assms show "find_closest_gps_in_reference S F e files target refs
              = find_closest_gps_in_reference S F e files target
                  (filter (\<lambda>r. ref_path r \<noteq> p) refs)"
    by (rule find_closest_skip)
next
  from assms show "geotag_photo S F e files name (Some lat, Some lon)
           = (Inr None, files, [Skipping name])"
    by (auto simp: geotag_photo_def)
qed

theorem zero_coordinate_absent_witness:
  "(f_is_zero exact_floats 0 \<or> f_is_zero exact_floats 5)
   \<and> read_lat_lon exact_floats quiet_env demo_files (lit ''ref/z.jpg'') = Inr (Some 0, Some 5)
   \<and> find_closest_gps_in_reference posix_lib exact_floats quiet_env demo_files demo_target
        [ref_at 5 ''z.jpg'', ref_at 12 ''a.jpg'']
      = find_closest_gps_in_reference posix_lib exact_floats quiet_env demo_files demo_target
          [ref_at 12 ''a.jpg'']
   \<and> geotag_photo posix_lib exact_floats quiet_env demo_files demo_target (Some 0, Some 5)
      = (Inr None, demo_files, [Skipping demo_target])"
proof -
  have z: "f_is_zero exact_floats (0::real) \<or> f_is_zero exact_floats (5::real)"
    by (simp add: exact_floats_def)
  have r: "read_lat_lon exact_floats quiet_env demo_files (lit ''ref/z.jpg'')
      = Inr (Some 0, Some 5)"
    using demo_reads(2) by (simp add: lit_def)
  have f: "filter (\<lambda>r. ref_path r \<noteq> lit ''ref/z.jpg'') [ref_at 5 ''z.jpg'', ref_at 12 ''a.jpg'']
      = [ref_at 12 ''a.jpg'']"
    by (simp add: ref_at_def lit_def)
  from zero_coordinate_absent [OF z, of quiet_env demo_files "lit ''ref/z.jpg''" posix_lib
      demo_target "[ref_at 5 ''z.jpg'', ref_at 12 ''a.jpg'']" demo_target] z r f
  show ?thesis by simp
qed

section \<open>Properties of the batch orchestrator\<close>












end
